theory Spec2Isabelle
  imports Main
begin

section \<open>Planar constraints over a linear sequence\<close>

text \<open>
  A shallow embedding of \<^verbatim>\<open>opencog/generate/PlanarConstraints.cc\<close> and of the link
  creation of \<^verbatim>\<open>opencog/generate/PlanarCallback.cc\<close>.

  A \<^verbatim>\<open>Handle\<close> is an opaque, comparable identity: the type variable \<open>'h\<close>.
  A \<^verbatim>\<open>size_t\<close> is a natural number below \<open>2 ^ 64\<close>. Positions are only compared;
  where the source subtracts from a size that may be zero, multiplies two sizes or
  counts crossings, the wrap-around of \<^verbatim>\<open>size_t\<close> is written out.
\<close>

subsection \<open>Data model\<close>

text \<open>
  The three private members of \<^verbatim>\<open>class PlanarConstraints\<close>:
  \<^verbatim>\<open>std::vector<Handle> _sequence\<close>, \<^verbatim>\<open>std::map<Handle, size_t> _position_map\<close> and
  \<^verbatim>\<open>std::vector<std::pair<size_t, size_t>> _links\<close>.
\<close>

record 'h PlanarConstraints =
  sequence :: "'h list"
  position_map :: "'h \<rightharpoonup> nat"
  links :: "(nat \<times> nat) list"

definition size_t_modulus :: nat where
  "size_t_modulus = 2 ^ 64"

text \<open>A freshly constructed engine: every container is empty.\<close>

definition new_constraints :: "'h PlanarConstraints" where
  "new_constraints = \<lparr>sequence = [], position_map = Map.empty, links = []\<rparr>"

subsection \<open>The crossing predicate\<close>

text \<open>
  \<^verbatim>\<open>links_cross\<close>: both pairs are put in ascending order by a swap, then the two
  interleavings are tested.
\<close>

definition links_cross :: "nat \<Rightarrow> nat \<Rightarrow> nat \<Rightarrow> nat \<Rightarrow> bool" where
  "links_cross i1 j1 i2 j2 =
     (let (i1, j1) = (if i1 > j1 then (j1, i1) else (i1, j1));
          (i2, j2) = (if i2 > j2 then (j2, i2) else (i2, j2))
      in (i1 < i2 \<and> i2 < j1 \<and> j1 < j2) \<or> (i2 < i1 \<and> i1 < j2 \<and> j2 < j1))"

text \<open>
  The data model's wording of a crossing, kept apart from the code: with the first
  link's positions in ascending order, exactly one of the second link's two endpoints
  lies strictly inside the open interval the first link spans.
\<close>

definition strictly_inside :: "nat \<Rightarrow> nat \<Rightarrow> nat \<Rightarrow> bool" where
  "strictly_inside lo hi x = (lo < x \<and> x < hi)"

definition exactly_one_inside :: "nat \<Rightarrow> nat \<Rightarrow> nat \<Rightarrow> nat \<Rightarrow> bool" where
  "exactly_one_inside i1 j1 i2 j2 =
     (strictly_inside (min i1 j1) (max i1 j1) i2 \<noteq> strictly_inside (min i1 j1) (max i1 j1) j2)"

subsection \<open>Sequence and position index\<close>

text \<open>\<^verbatim>\<open>clear\<close> empties the three containers.\<close>

definition clear :: "'h PlanarConstraints \<Rightarrow> 'h PlanarConstraints" where
  "clear s = s\<lparr>sequence := [], position_map := Map.empty, links := []\<rparr>"

text \<open>
  \<^verbatim>\<open>update_position_map\<close>: the map is cleared, then the loop over
  \<open>i = 0, ..., size - 1\<close> stores \<open>i\<close> under the point at offset \<open>i\<close>, a later
  offset overwriting an earlier one.
\<close>

definition update_position_map :: "'h PlanarConstraints \<Rightarrow> 'h PlanarConstraints" where
  "update_position_map s =
     s\<lparr>position_map :=
         foldl (\<lambda>m i. m(sequence s ! i \<mapsto> i)) Map.empty [0..<length (sequence s)]\<rparr>"

text \<open>\<^verbatim>\<open>set_sequence\<close>: assign, rebuild the index, drop every link.\<close>

definition set_sequence :: "'h PlanarConstraints \<Rightarrow> 'h list \<Rightarrow> 'h PlanarConstraints" where
  "set_sequence s points = (update_position_map (s\<lparr>sequence := points\<rparr>))\<lparr>links := []\<rparr>"

text \<open>
  \<^verbatim>\<open>append_point\<close>: \<^verbatim>\<open>push_back\<close>, then the new last offset is stored under the
  point. The size is at least one after the \<^verbatim>\<open>push_back\<close>, so \<^verbatim>\<open>size() - 1\<close> does
  not wrap.
\<close>

definition append_point :: "'h PlanarConstraints \<Rightarrow> 'h \<Rightarrow> 'h PlanarConstraints" where
  "append_point s point =
     (let s1 = s\<lparr>sequence := sequence s @ [point]\<rparr>
      in s1\<lparr>position_map := (position_map s1)(point \<mapsto> length (sequence s1) - 1)\<rparr>)"

subsection \<open>Links\<close>

text \<open>
  The loop of \<^verbatim>\<open>is_planar_link\<close> over the stored links: \<open>False\<close> at the first
  stored link the candidate crosses, \<open>True\<close> when the loop runs out.
\<close>

fun planar_against :: "nat \<Rightarrow> nat \<Rightarrow> (nat \<times> nat) list \<Rightarrow> bool" where
  "planar_against from_pos to_pos [] = True"
| "planar_against from_pos to_pos (link # rest) =
     (if links_cross from_pos to_pos (fst link) (snd link) then False
      else planar_against from_pos to_pos rest)"

text \<open>
  \<^verbatim>\<open>is_planar_link\<close>, with what it hands to \<^verbatim>\<open>logger().warn\<close>: the returned
  \<^verbatim>\<open>bool\<close> first, the warnings written to the log second.
\<close>

definition point_not_found_warning :: string where
  "point_not_found_warning = ''PlanarConstraints::is_planar_link: Point not found in sequence''"

definition is_planar_link_log :: "'h PlanarConstraints \<Rightarrow> 'h \<Rightarrow> 'h \<Rightarrow> bool \<times> string list" where
  "is_planar_link_log s from_point to_point =
     (if position_map s from_point = None \<or> position_map s to_point = None
      then (False, [point_not_found_warning])
      else (planar_against (the (position_map s from_point)) (the (position_map s to_point))
              (links s), []))"

definition is_planar_link :: "'h PlanarConstraints \<Rightarrow> 'h \<Rightarrow> 'h \<Rightarrow> bool" where
  "is_planar_link s from_point to_point = fst (is_planar_link_log s from_point to_point)"

text \<open>
  \<^verbatim>\<open>add_link\<close>: the returned \<^verbatim>\<open>bool\<close> and the engine after the call. The second
  look-up repeats the one \<^verbatim>\<open>is_planar_link\<close> made.
\<close>

definition add_link :: "'h PlanarConstraints \<Rightarrow> 'h \<Rightarrow> 'h \<Rightarrow> bool \<times> 'h PlanarConstraints" where
  "add_link s from_point to_point =
     (if \<not> is_planar_link s from_point to_point then (False, s)
      else if position_map s from_point = None \<or> position_map s to_point = None then (False, s)
      else (True, s\<lparr>links := links s @
              [(the (position_map s from_point), the (position_map s to_point))]\<rparr>))"

text \<open>
  \<^verbatim>\<open>remove_link\<close>: nothing when a point is unknown; otherwise every stored pair
  equal to the two positions, in either orientation, is erased.
\<close>

definition remove_link :: "'h PlanarConstraints \<Rightarrow> 'h \<Rightarrow> 'h \<Rightarrow> 'h PlanarConstraints" where
  "remove_link s from_point to_point =
     (if position_map s from_point = None \<or> position_map s to_point = None then s
      else (let from_pos = the (position_map s from_point);
                to_pos = the (position_map s to_point)
            in s\<lparr>links := filter (\<lambda>link. \<not> ((fst link = from_pos \<and> snd link = to_pos) \<or>
                                               (fst link = to_pos \<and> snd link = from_pos)))
                               (links s)\<rparr>))"

definition get_link_count :: "'h PlanarConstraints \<Rightarrow> nat" where
  "get_link_count s = length (links s)"

subsection \<open>Auditing the link set\<close>

text \<open>
  \<^verbatim>\<open>is_planar\<close>: the outer loop takes the links in order, the inner loop tests
  each against the links stored after it; the first crossing pair ends both loops.
\<close>

fun planar_links :: "(nat \<times> nat) list \<Rightarrow> bool" where
  "planar_links [] = True"
| "planar_links (link # rest) =
     (if planar_against (fst link) (snd link) rest then planar_links rest else False)"

definition is_planar :: "'h PlanarConstraints \<Rightarrow> bool" where
  "is_planar s = planar_links (links s)"

text \<open>
  \<^verbatim>\<open>get_crossing_count\<close>: the same two loops, counting. The counter is a
  \<^verbatim>\<open>size_t\<close>, so the count is taken modulo \<open>2 ^ 64\<close>.
\<close>

fun count_against :: "nat \<Rightarrow> nat \<Rightarrow> (nat \<times> nat) list \<Rightarrow> nat" where
  "count_against i j [] = 0"
| "count_against i j (link # rest) =
     (if links_cross i j (fst link) (snd link) then 1 else 0) + count_against i j rest"

fun count_crossings :: "(nat \<times> nat) list \<Rightarrow> nat" where
  "count_crossings [] = 0"
| "count_crossings (link # rest) = count_against (fst link) (snd link) rest + count_crossings rest"

definition get_crossing_count :: "'h PlanarConstraints \<Rightarrow> nat" where
  "get_crossing_count s = count_crossings (links s) mod size_t_modulus"

subsection \<open>The reordering heuristic\<close>

text \<open>
  \<^verbatim>\<open>size_t\<close> subtraction wraps: \<^verbatim>\<open>_sequence.size() - 1\<close> is \<open>2 ^ 64 - 1\<close> on an
  empty sequence.
\<close>

definition size_t_sub :: "nat \<Rightarrow> nat \<Rightarrow> nat" where
  "size_t_sub a b = (a + size_t_modulus - b) mod size_t_modulus"

text \<open>
  \<^verbatim>\<open>std::swap(_sequence[i], _sequence[i + 1])\<close>. \<^verbatim>\<open>operator[]\<close> past the end of
  the vector is undefined behaviour: \<open>None\<close>.
\<close>

definition swap_at :: "nat \<Rightarrow> 'a list \<Rightarrow> 'a list option" where
  "swap_at i xs =
     (if i + 1 < length xs then Some (xs[i := xs ! (i + 1), i + 1 := xs ! i]) else None)"

text \<open>
  The \<^verbatim>\<open>for\<close> loop of \<^verbatim>\<open>optimize_sequence\<close>, from index \<open>i\<close> on, with the
  locals \<^verbatim>\<open>current_crossings\<close> and \<^verbatim>\<open>improved\<close>: swap, rebuild the index, count;
  keep the swap when the count went down, otherwise swap back and rebuild again. The
  bound \<^verbatim>\<open>_sequence.size() - 1\<close> is read anew at every test, as the source does.
\<close>

function optimize_pass ::
  "nat \<Rightarrow> nat \<Rightarrow> bool \<Rightarrow> 'h PlanarConstraints \<Rightarrow> (nat \<times> bool \<times> 'h PlanarConstraints) option" where
  "optimize_pass i current_crossings improved s =
     (if i < size_t_sub (length (sequence s)) 1 then
        (case swap_at i (sequence s) of
           None \<Rightarrow> None
         | Some swapped \<Rightarrow>
             (let s1 = update_position_map (s\<lparr>sequence := swapped\<rparr>);
                  new_crossings = get_crossing_count s1
              in if new_crossings < current_crossings
                 then optimize_pass (i + 1) new_crossings True s1
                 else (case swap_at i (sequence s1) of
                         None \<Rightarrow> None
                       | Some reverted \<Rightarrow>
                           optimize_pass (i + 1) current_crossings improved
                             (update_position_map (s1\<lparr>sequence := reverted\<rparr>)))))
      else Some (current_crossings, improved, s))"
  by pat_completeness auto
termination
  by (relation "measure (\<lambda>(i, cc, imp, s). size_t_sub (length (sequence s)) 1 - i)")
     (auto simp: swap_at_def update_position_map_def split: if_splits)

text \<open>
  The \<^verbatim>\<open>while\<close> loop, with the locals \<^verbatim>\<open>improved\<close>, \<^verbatim>\<open>iteration\<close> and
  \<^verbatim>\<open>max_iterations\<close>; it returns the engine and the final \<^verbatim>\<open>iteration\<close>, the number
  of passes made, which the source writes to the debug log.
\<close>

function optimize_loop ::
  "bool \<Rightarrow> nat \<Rightarrow> nat \<Rightarrow> 'h PlanarConstraints \<Rightarrow> ('h PlanarConstraints \<times> nat) option" where
  "optimize_loop improved iteration max_iterations s =
     (if improved \<and> iteration < max_iterations then
        (case optimize_pass 0 (get_crossing_count s) False s of
           None \<Rightarrow> None
         | Some (current_crossings, improved', s') \<Rightarrow>
             optimize_loop improved' (iteration + 1) max_iterations s')
      else Some (s, iteration))"
  by pat_completeness auto
termination
  by (relation "measure (\<lambda>(imp, iteration, max_iterations, s). max_iterations - iteration)") auto

declare optimize_pass.simps [simp del] optimize_loop.simps [simp del]

text \<open>
  \<^verbatim>\<open>optimize_sequence\<close>, with the number of passes; \<^verbatim>\<open>max_iterations\<close> is a
  \<^verbatim>\<open>size_t\<close> product.
\<close>

definition optimize_sequence_passes ::
  "'h PlanarConstraints \<Rightarrow> ('h PlanarConstraints \<times> nat) option" where
  "optimize_sequence_passes s =
     optimize_loop True 0 ((length (sequence s) * length (sequence s)) mod size_t_modulus) s"

definition optimize_sequence :: "'h PlanarConstraints \<Rightarrow> 'h PlanarConstraints option" where
  "optimize_sequence s = map_option fst (optimize_sequence_passes s)"

subsection \<open>Sequences of public operations\<close>

datatype 'h operation =
    Clear
  | SetSequence "'h list"
  | AppendPoint 'h
  | AddLink 'h 'h
  | RemoveLink 'h 'h
  | OptimizeSequence

fun apply_operation :: "'h operation \<Rightarrow> 'h PlanarConstraints \<Rightarrow> 'h PlanarConstraints option" where
  "apply_operation Clear s = Some (clear s)"
| "apply_operation (SetSequence points) s = Some (set_sequence s points)"
| "apply_operation (AppendPoint point) s = Some (append_point s point)"
| "apply_operation (AddLink from_point to_point) s = Some (snd (add_link s from_point to_point))"
| "apply_operation (RemoveLink from_point to_point) s = Some (remove_link s from_point to_point)"
| "apply_operation OptimizeSequence s = optimize_sequence s"

fun run_operations ::
  "'h operation list \<Rightarrow> 'h PlanarConstraints \<Rightarrow> 'h PlanarConstraints option" where
  "run_operations [] s = Some s"
| "run_operations (operation # rest) s =
     (case apply_operation operation s of
        None \<Rightarrow> None
      | Some s' \<Rightarrow> run_operations rest s')"

subsection \<open>The construction policy: creating a link\<close>

text \<open>
  The members of \<^verbatim>\<open>class PlanarCallback\<close>, but for the dictionary, which
  \<^verbatim>\<open>make_link\<close> does not touch. The base callback and the working atomspace are
  pointers to collaborators outside this repository, \<open>None\<close> for \<^verbatim>\<open>nullptr\<close>:
  \<^item> a base callback is its \<^verbatim>\<open>make_link\<close>, from the two connectors and the two
    points to a \<^verbatim>\<open>Handle\<close>;
  \<^item> a working atomspace is its \<^verbatim>\<open>add_link(EVALUATION_LINK, from_con, to_con)\<close>,
    from the two connectors to a \<^verbatim>\<open>Handle\<close>.

  A \<^verbatim>\<open>Handle\<close> they return is \<open>Some\<close> link, or \<open>None\<close> for
  \<^verbatim>\<open>Handle::UNDEFINED\<close>. What the collaborators do to their own state is not modelled.
\<close>

record ('h, 'l) PlanarCallback =
  base_callback :: "('h \<Rightarrow> 'h \<Rightarrow> 'h \<Rightarrow> 'h \<Rightarrow> 'l option) option"
  constraints :: "'h PlanarConstraints"
  current_sequence :: "'h list"
  strict_planarity :: bool
  auto_optimize :: bool
  work_as :: "('h \<Rightarrow> 'h \<Rightarrow> 'l option) option"

text \<open>
  The constructor taking a base callback (which may be null): strict, auto-optimizing,
  no working atomspace yet.
\<close>

definition new_callback ::
  "('h \<Rightarrow> 'h \<Rightarrow> 'h \<Rightarrow> 'h \<Rightarrow> 'l option) option \<Rightarrow> ('h, 'l) PlanarCallback" where
  "new_callback base =
     \<lparr>base_callback = base, constraints = new_constraints, current_sequence = [],
      strict_planarity = True, auto_optimize = True, work_as = None\<rparr>"

definition set_strict_planarity :: "('h, 'l) PlanarCallback \<Rightarrow> bool \<Rightarrow> ('h, 'l) PlanarCallback" where
  "set_strict_planarity cb strict = cb\<lparr>strict_planarity := strict\<rparr>"

definition set_initial_sequence ::
  "('h, 'l) PlanarCallback \<Rightarrow> 'h list \<Rightarrow> ('h, 'l) PlanarCallback" where
  "set_initial_sequence cb points =
     cb\<lparr>current_sequence := points, constraints := set_sequence (constraints cb) points\<rparr>"

text \<open>
  \<^verbatim>\<open>PlanarCallback::clear\<close>: the working atomspace is stored, the engine and the
  cached sequence are emptied.
\<close>

definition callback_clear ::
  "('h, 'l) PlanarCallback \<Rightarrow> ('h \<Rightarrow> 'h \<Rightarrow> 'l option) option \<Rightarrow> ('h, 'l) PlanarCallback" where
  "callback_clear cb work =
     cb\<lparr>work_as := work, constraints := clear (constraints cb), current_sequence := []\<rparr>"

definition is_connection_planar :: "('h, 'l) PlanarCallback \<Rightarrow> 'h \<Rightarrow> 'h \<Rightarrow> bool" where
  "is_connection_planar cb from_pnt to_pnt = is_planar_link (constraints cb) from_pnt to_pnt"

text \<open>
  The block of \<^verbatim>\<open>make_link\<close> that creates the link atom: by the base callback
  when there is one, by the working atomspace otherwise. \<open>None\<close> is the dereference
  of a null \<^verbatim>\<open>_work_as\<close>, from which the call does not return.
\<close>

definition create_link ::
  "('h, 'l) PlanarCallback \<Rightarrow> 'h \<Rightarrow> 'h \<Rightarrow> 'h \<Rightarrow> 'h \<Rightarrow> 'l option option" where
  "create_link cb from_con to_con from_pnt to_pnt =
     (case base_callback cb of
        Some base_make_link \<Rightarrow> Some (base_make_link from_con to_con from_pnt to_pnt)
      | None \<Rightarrow>
          (case work_as cb of
             None \<Rightarrow> None
           | Some work_add_link \<Rightarrow> Some (work_add_link from_con to_con)))"

text \<open>
  \<^verbatim>\<open>make_link\<close>, in the order of the source: the planarity check, with the early
  return of the undefined handle in strict mode; \<^verbatim>\<open>_constraints.add_link\<close>, whose
  result only decides whether a warning is logged; the link atom; the
  re-optimization. The result is \<open>None\<close> when the call does not return: the working
  atomspace is dereferenced while null, or \<^const>\<open>optimize_sequence\<close> reads out of range.
\<close>

definition make_link ::
  "('h, 'l) PlanarCallback \<Rightarrow> 'h \<Rightarrow> 'h \<Rightarrow> 'h \<Rightarrow> 'h \<Rightarrow> ('l option \<times> ('h, 'l) PlanarCallback) option" where
  "make_link cb from_con to_con from_pnt to_pnt =
     (if \<not> is_connection_planar cb from_pnt to_pnt \<and> strict_planarity cb then Some (None, cb)
      else
        (let cb1 = cb\<lparr>constraints := snd (add_link (constraints cb) from_pnt to_pnt)\<rparr>
         in case create_link cb1 from_con to_con from_pnt to_pnt of
              None \<Rightarrow> None
            | Some link \<Rightarrow>
                if auto_optimize cb1 \<and> get_crossing_count (constraints cb1) > 0
                then (case optimize_sequence (constraints cb1) of
                        None \<Rightarrow> None
                      | Some optimized \<Rightarrow>
                          Some (link, cb1\<lparr>constraints := optimized,
                                          current_sequence := sequence optimized\<rparr>))
                else Some (link, cb1)))"

subsection \<open>Example states\<close>

text \<open>
  The sequence \<open>[0, 1, 2, 3]\<close> with the link between the points 0 and 2, and an engine
  holding two crossing links, which no sequence of operations produces.
\<close>

definition example_engine :: "nat PlanarConstraints" where
  "example_engine =
     \<lparr>sequence = [0, 1, 2, 3],
      position_map = [0 \<mapsto> 0, 1 \<mapsto> 1, 2 \<mapsto> 2, 3 \<mapsto> 3],
      links = [(0, 2)]\<rparr>"

definition crossed_engine :: "nat PlanarConstraints" where
  "crossed_engine =
     \<lparr>sequence = [0, 1, 2, 3, 4, 5],
      position_map = [0 \<mapsto> 0, 1 \<mapsto> 1, 2 \<mapsto> 2, 3 \<mapsto> 3, 4 \<mapsto> 4, 5 \<mapsto> 5],
      links = [(0, 2), (1, 3)]\<rparr>"

text \<open>
  A working atomspace whose evaluation link over two connectors is the pair of the
  connectors, always a defined handle; and the example engine inside a lenient and
  inside a strict policy that have this atomspace and no base callback.
\<close>

definition evaluation_link :: "nat \<Rightarrow> nat \<Rightarrow> (nat \<times> nat) option" where
  "evaluation_link from_con to_con = Some (from_con, to_con)"

definition lenient_policy :: "(nat, nat \<times> nat) PlanarCallback" where
  "lenient_policy =
     \<lparr>base_callback = None, constraints = example_engine, current_sequence = [0, 1, 2, 3],
      strict_planarity = False, auto_optimize = True, work_as = Some evaluation_link\<rparr>"

definition strict_policy :: "(nat, nat \<times> nat) PlanarCallback" where
  "strict_policy =
     \<lparr>base_callback = None, constraints = example_engine, current_sequence = [0, 1, 2, 3],
      strict_planarity = True, auto_optimize = True, work_as = Some evaluation_link\<rparr>"

subsection \<open>The index invariant\<close>

text \<open>
  The position index is the one \<^verbatim>\<open>update_position_map\<close> would build from the
  sequence.
\<close>

definition indexed :: "'h PlanarConstraints \<Rightarrow> bool" where
  "indexed s = (update_position_map s = s)"

subsection \<open>Properties of the crossing predicate\<close>

lemma links_cross_min_max:
  "links_cross i1 j1 i2 j2 =
     ((min i1 j1 < min i2 j2 \<and> min i2 j2 < max i1 j1 \<and> max i1 j1 < max i2 j2) \<or>
      (min i2 j2 < min i1 j1 \<and> min i1 j1 < max i2 j2 \<and> max i2 j2 < max i1 j1))"
  by (auto simp: links_cross_def min_def max_def)

lemma links_cross_sym: "links_cross i1 j1 i2 j2 = links_cross i2 j2 i1 j1"
  unfolding links_cross_min_max by blast

text \<open>
  C10. A link never crosses itself, and a self-loop (both positions equal) crosses
  nothing, whichever argument position it is passed in.
\<close>

theorem links_cross_no_self_crossing:
  "\<not> links_cross a b a b \<and> \<not> links_cross a a c d \<and> \<not> links_cross c d a a"
  unfolding links_cross_min_max by (auto simp: min_def max_def)

text \<open>
  C2 as written fails where the two links share an endpoint: of the second link
  \<open>(1, 2)\<close> exactly one endpoint, \<open>1\<close>, lies strictly inside the interval of the
  first link \<open>(0, 2)\<close>, and the code reports no crossing.
\<close>

theorem links_cross_shared_endpoint_counterexample:
  "exactly_one_inside 0 2 1 2 \<and> \<not> links_cross 0 2 1 2"
  by (simp add: exactly_one_inside_def strictly_inside_def links_cross_def)

text \<open>
  C2, amended. \<^verbatim>\<open>links_cross\<close> holds exactly when the two pairs, each put in
  ascending order, interleave strictly; put differently, exactly one endpoint of the
  second link lies strictly inside the interval of the first and neither endpoint of
  the second link is an endpoint of the first.
\<close>

theorem links_cross_iff_interleaved:
  "(links_cross i1 j1 i2 j2 \<longleftrightarrow>
      (min i1 j1 < min i2 j2 \<and> min i2 j2 < max i1 j1 \<and> max i1 j1 < max i2 j2) \<or>
      (min i2 j2 < min i1 j1 \<and> min i1 j1 < max i2 j2 \<and> max i2 j2 < max i1 j1)) \<and>
   (links_cross i1 j1 i2 j2 \<longleftrightarrow>
      exactly_one_inside i1 j1 i2 j2 \<and> i2 \<noteq> i1 \<and> i2 \<noteq> j1 \<and> j2 \<noteq> i1 \<and> j2 \<noteq> j1)"
proof
  show "links_cross i1 j1 i2 j2 \<longleftrightarrow>
      (min i1 j1 < min i2 j2 \<and> min i2 j2 < max i1 j1 \<and> max i1 j1 < max i2 j2) \<or>
      (min i2 j2 < min i1 j1 \<and> min i1 j1 < max i2 j2 \<and> max i2 j2 < max i1 j1)"
    by (rule links_cross_min_max)
  show "links_cross i1 j1 i2 j2 \<longleftrightarrow>
      exactly_one_inside i1 j1 i2 j2 \<and> i2 \<noteq> i1 \<and> i2 \<noteq> j1 \<and> j2 \<noteq> i1 \<and> j2 \<noteq> j1"
    unfolding links_cross_min_max exactly_one_inside_def strictly_inside_def
    by (auto simp: min_def max_def split: if_splits)
qed

subsection \<open>The loops over the link set\<close>

lemma planar_against_append:
  "planar_against p q (ls @ ms) = (planar_against p q ls \<and> planar_against p q ms)"
  by (induction ls) auto

lemma planar_against_filter:
  "planar_against p q ls \<Longrightarrow> planar_against p q (filter P ls)"
  by (induction ls) (auto split: if_splits)

lemma planar_links_snoc:
  "planar_links (ls @ [(p, q)]) = (planar_links ls \<and> planar_against p q ls)"
proof (induction ls)
  case Nil
  show ?case by simp
next
  case (Cons l ls)
  have "links_cross (fst l) (snd l) p q = links_cross p q (fst l) (snd l)"
    by (rule links_cross_sym)
  with Cons show ?case
    by (auto simp: planar_against_append)
qed

lemma planar_links_filter: "planar_links ls \<Longrightarrow> planar_links (filter P ls)"
  by (induction ls) (auto simp: planar_against_filter split: if_splits)

lemma count_against_zero: "(count_against p q ls = 0) = planar_against p q ls"
  by (induction ls) auto

lemma count_crossings_zero: "(count_crossings ls = 0) = planar_links ls"
  by (induction ls) (auto simp: count_against_zero)

lemma get_crossing_count_planar: "is_planar s \<Longrightarrow> get_crossing_count s = 0"
  using count_crossings_zero [of "links s"] by (simp add: is_planar_def get_crossing_count_def)

subsection \<open>Checking and adding a link\<close>

lemma is_planar_link_unfold:
  "is_planar_link s f t =
     (position_map s f \<noteq> None \<and> position_map s t \<noteq> None \<and>
      planar_against (the (position_map s f)) (the (position_map s t)) (links s))"
  by (simp add: is_planar_link_def is_planar_link_log_def)

lemma add_link_accept:
  "is_planar_link s f t \<Longrightarrow>
   add_link s f t =
     (True, s\<lparr>links := links s @ [(the (position_map s f), the (position_map s t))]\<rparr>)"
  by (auto simp: add_link_def is_planar_link_unfold)

lemma add_link_reject: "\<not> is_planar_link s f t \<Longrightarrow> add_link s f t = (False, s)"
  by (simp add: add_link_def)

lemma add_link_keeps_planar: "is_planar s \<Longrightarrow> is_planar (snd (add_link s f t))"
  by (cases "is_planar_link s f t")
     (auto simp: add_link_accept add_link_reject is_planar_def planar_links_snoc
        is_planar_link_unfold)

text \<open>
  C1. \<^verbatim>\<open>add_link\<close> returns what \<^verbatim>\<open>is_planar_link\<close> returns on the same state.
  When that is true, the engine after the call is the engine before it with the one
  pair of the two points' positions appended to the links, so the link count goes up by
  one and sequence and position index are as before. When it is false, the engine
  after the call is the engine before it.
\<close>

theorem add_link_iff_is_planar_link:
  "fst (add_link s from_point to_point) = is_planar_link s from_point to_point \<and>
   (is_planar_link s from_point to_point \<longrightarrow>
      (\<exists>from_pos to_pos.
         position_map s from_point = Some from_pos \<and> position_map s to_point = Some to_pos \<and>
         snd (add_link s from_point to_point) = s\<lparr>links := links s @ [(from_pos, to_pos)]\<rparr>) \<and>
      get_link_count (snd (add_link s from_point to_point)) = get_link_count s + 1) \<and>
   (\<not> is_planar_link s from_point to_point \<longrightarrow> snd (add_link s from_point to_point) = s)"
proof (cases "is_planar_link s from_point to_point")
  case True
  then obtain from_pos to_pos where
    "position_map s from_point = Some from_pos" "position_map s to_point = Some to_pos"
    by (auto simp: is_planar_link_unfold)
  with True show ?thesis
    by (simp add: add_link_accept get_link_count_def)
next
  case False
  then show ?thesis by (simp add: add_link_reject)
qed

text \<open>
  On the example engine the link between the points 0 and 1 is accepted and stored last;
  the link between 1 and 3 crosses the stored one and is refused.
\<close>

theorem add_link_iff_is_planar_link_witness:
  "is_planar_link example_engine 0 1 \<and>
   add_link example_engine 0 1 = (True, example_engine\<lparr>links := [(0, 2), (0, 1)]\<rparr>) \<and>
   \<not> is_planar_link example_engine 1 3 \<and>
   add_link example_engine 1 3 = (False, example_engine)"
  using add_link_iff_is_planar_link [of example_engine 0 1]
    add_link_iff_is_planar_link [of example_engine 1 3]
  by (simp add: example_engine_def is_planar_link_unfold links_cross_def prod_eq_iff)

text \<open>
  C9. When \<^verbatim>\<open>add_link\<close> returns true, \<^verbatim>\<open>is_planar\<close> gives the same answer after the
  call as before it.
\<close>

theorem add_link_preserves_is_planar:
  "fst (add_link s p q) \<Longrightarrow> is_planar (snd (add_link s p q)) = is_planar s"
  by (cases "is_planar_link s p q")
     (auto simp: add_link_accept add_link_reject is_planar_def planar_links_snoc
        is_planar_link_unfold)

text \<open>
  A planar engine stays planar and an engine that already holds a crossing keeps it:
  in both the added link crosses nothing.
\<close>

theorem add_link_preserves_is_planar_witness:
  "fst (add_link example_engine 0 1) \<and>
   is_planar example_engine \<and> is_planar (snd (add_link example_engine 0 1)) \<and>
   fst (add_link crossed_engine 4 5) \<and>
   \<not> is_planar crossed_engine \<and> \<not> is_planar (snd (add_link crossed_engine 4 5))"
  using add_link_preserves_is_planar [of example_engine 0 1]
    add_link_preserves_is_planar [of crossed_engine 4 5]
  by (simp add: example_engine_def crossed_engine_def add_link_def is_planar_def
      is_planar_link_unfold links_cross_def)

text \<open>
  C6 as written fails: on the example engine the call with the unknown point 9 and the
  call whose link between 1 and 3 crosses the stored link \<open>(0, 2)\<close> return the same
  value.
\<close>

theorem is_planar_link_not_found_counterexample:
  "position_map example_engine 9 = None \<and>
   position_map example_engine 1 = Some 1 \<and> position_map example_engine 3 = Some 3 \<and>
   links example_engine = [(0, 2)] \<and> links_cross 1 3 0 2 \<and>
   is_planar_link example_engine 9 0 = is_planar_link example_engine 1 3"
  by (simp add: example_engine_def is_planar_link_unfold links_cross_def)

text \<open>
  C6, amended. When at least one of the two points is absent from the position index,
  \<^verbatim>\<open>is_planar_link\<close> returns plain false, the value it also returns for a crossing; the
  condition itself goes to the log only, as one warning, and \<^verbatim>\<open>add_link\<close> on the same
  points returns false and leaves the engine as it was.
\<close>

theorem is_planar_link_point_not_found:
  "position_map s from_point = None \<or> position_map s to_point = None \<Longrightarrow>
   \<not> is_planar_link s from_point to_point \<and>
   snd (is_planar_link_log s from_point to_point) = [point_not_found_warning] \<and>
   add_link s from_point to_point = (False, s)"
  by (auto simp: is_planar_link_def is_planar_link_log_def add_link_def)

theorem is_planar_link_point_not_found_witness:
  "(position_map example_engine 9 = None \<or> position_map example_engine 0 = None) \<and>
   \<not> is_planar_link example_engine 9 0 \<and>
   snd (is_planar_link_log example_engine 9 0) = [point_not_found_warning] \<and>
   add_link example_engine 9 0 = (False, example_engine)"
  using is_planar_link_point_not_found [of example_engine 9 0]
  by (simp add: example_engine_def)

subsection \<open>The position index\<close>

lemma sequence_update_position_map [simp]: "sequence (update_position_map s) = sequence s"
  by (simp add: update_position_map_def)

lemma links_update_position_map [simp]: "links (update_position_map s) = links s"
  by (simp add: update_position_map_def)

lemma get_crossing_count_update_position_map [simp]:
  "get_crossing_count (update_position_map s) = get_crossing_count s"
  by (simp add: get_crossing_count_def)

lemma update_position_map_idem [simp]:
  "update_position_map (update_position_map s) = update_position_map s"
  by (simp add: update_position_map_def)

lemma update_position_map_resequence [simp]:
  "update_position_map ((update_position_map s)\<lparr>sequence := xs\<rparr>) =
   update_position_map (s\<lparr>sequence := xs\<rparr>)"
  by (simp add: update_position_map_def)

lemma index_fold_cong:
  "k \<le> length xs \<Longrightarrow>
   foldl (\<lambda>m i. m((xs @ ys) ! i \<mapsto> i)) m0 [0..<k] = foldl (\<lambda>m i. m(xs ! i \<mapsto> i)) m0 [0..<k]"
  by (induction k) (simp_all add: nth_append)

lemma index_fold_dom:
  "k \<le> length xs \<Longrightarrow>
   dom (foldl (\<lambda>m i. m(xs ! i \<mapsto> i)) m0 [0..<k]) = dom m0 \<union> set (take k xs)"
  by (induction k) (auto simp: take_Suc_conv_app_nth)

lemma index_fold_distinct:
  "distinct xs \<Longrightarrow> k \<le> length xs \<Longrightarrow> i < k \<Longrightarrow>
   foldl (\<lambda>m i. m(xs ! i \<mapsto> i)) m0 [0..<k] (xs ! i) = Some i"
proof (induction k)
  case 0
  then show ?case by simp
next
  case (Suc k)
  show ?case
  proof (cases "i = k")
    case True
    then show ?thesis by simp
  next
    case False
    with Suc.prems have "i < k" "k < length xs" by simp_all
    with Suc.prems(1) have "xs ! i \<noteq> xs ! k"
      by (simp add: nth_eq_iff_index_eq)
    with Suc \<open>i < k\<close> show ?thesis by simp
  qed
qed

text \<open>
  C8. For a duplicate-free list, \<^verbatim>\<open>set_sequence\<close> leaves the sequence equal to the
  list, the position index defined exactly on the points of the list with each point
  mapped to its offset, and no link, whatever the engine held before.
\<close>

theorem set_sequence_rebuilds_index:
  assumes "distinct points"
  shows "sequence (set_sequence s points) = points \<and>
         (\<forall>i<length points. position_map (set_sequence s points) (points ! i) = Some i) \<and>
         dom (position_map (set_sequence s points)) = set points \<and>
         links (set_sequence s points) = []"
  using assms
  by (simp add: set_sequence_def update_position_map_def index_fold_distinct index_fold_dom)

theorem set_sequence_rebuilds_index_witness:
  "distinct [5, 7, 9 :: nat] \<and>
   sequence (set_sequence example_engine [5, 7, 9]) = [5, 7, 9] \<and>
   position_map (set_sequence example_engine [5, 7, 9]) 5 = Some 0 \<and>
   position_map (set_sequence example_engine [5, 7, 9]) 7 = Some 1 \<and>
   position_map (set_sequence example_engine [5, 7, 9]) 9 = Some 2 \<and>
   position_map (set_sequence example_engine [5, 7, 9]) 0 = None \<and>
   links (set_sequence example_engine [5, 7, 9]) = []"
  using set_sequence_rebuilds_index [of "[5, 7, 9 :: nat]" example_engine]
  by (simp add: set_sequence_def update_position_map_def example_engine_def)

subsection \<open>The index invariant under the operations\<close>

lemma indexed_clear: "indexed (clear s)"
  by (simp add: indexed_def clear_def update_position_map_def)

lemma indexed_set_sequence: "indexed (set_sequence s points)"
  by (simp add: indexed_def set_sequence_def update_position_map_def)

lemma indexed_position_map:
  "indexed s \<Longrightarrow>
   position_map s = foldl (\<lambda>m i. m(sequence s ! i \<mapsto> i)) Map.empty [0..<length (sequence s)]"
  by (cases s) (simp add: indexed_def update_position_map_def)

lemma indexed_append_point:
  assumes "indexed s"
  shows "indexed (append_point s point)"
proof -
  have "foldl (\<lambda>m i. m((sequence s @ [point]) ! i \<mapsto> i)) Map.empty
          [0..<Suc (length (sequence s))] =
        (position_map s)(point \<mapsto> length (sequence s))"
    by (simp add: index_fold_cong indexed_position_map [OF assms, symmetric])
  then show ?thesis
    by (simp add: indexed_def append_point_def update_position_map_def Let_def)
qed

lemma indexed_links_update: "indexed s \<Longrightarrow> indexed (s\<lparr>links := ls\<rparr>)"
  unfolding indexed_def update_position_map_def
  by (cases s) simp

lemma indexed_add_link: "indexed s \<Longrightarrow> indexed (snd (add_link s f t))"
  by (simp add: add_link_def indexed_links_update)

lemma indexed_remove_link: "indexed s \<Longrightarrow> indexed (remove_link s f t)"
  by (simp add: remove_link_def indexed_links_update Let_def)

subsection \<open>The reordering heuristic never keeps a swap\<close>

lemma swap_at_back:
  assumes "swap_at i xs = Some ys"
  shows "swap_at i ys = Some xs"
proof -
  from assms have i: "i + 1 < length xs" and ys: "ys = xs[i := xs ! (i + 1), i + 1 := xs ! i]"
    by (auto simp: swap_at_def split: if_splits)
  from i have "xs[i := xs ! (i + 1), i + 1 := xs ! i, i := xs ! i, i + 1 := xs ! (i + 1)] = xs"
    by (auto simp: list_eq_iff_nth_eq nth_list_update)
  with i show ?thesis
    by (simp add: swap_at_def ys)
qed

lemma size_t_sub_one_le: "0 < n \<Longrightarrow> size_t_sub n 1 \<le> n - 1"
proof -
  assume "0 < n"
  then have "n + size_t_modulus - 1 = (n - 1) + size_t_modulus" by simp
  then have "size_t_sub n 1 = (n - 1) mod size_t_modulus"
    by (simp add: size_t_sub_def)
  then show ?thesis by simp
qed

text \<open>
  On a non-empty sequence no index of the scan is out of range, and with the links
  untouched the count after a swap is the count before it: each swap is taken back,
  and the scan ends with the locals it started with.
\<close>

lemma optimize_pass_reverts_aux:
  "size_t_sub (length (sequence s)) 1 - i = k \<Longrightarrow> 0 < length (sequence s) \<Longrightarrow>
   cc \<le> get_crossing_count s \<Longrightarrow>
   optimize_pass i cc imp s =
     Some (cc, imp, if i < size_t_sub (length (sequence s)) 1 then update_position_map s else s)"
proof (induction k arbitrary: i s)
  case 0
  then have "\<not> i < size_t_sub (length (sequence s)) 1" by simp
  then show ?case by (subst optimize_pass.simps) simp
next
  case (Suc k)
  let ?n = "length (sequence s)"
  from Suc.prems have less: "i < size_t_sub ?n 1" by simp
  with size_t_sub_one_le [OF Suc.prems(2)] have "i + 1 < ?n" by simp
  then obtain swapped where sw: "swap_at i (sequence s) = Some swapped"
    by (simp add: swap_at_def)
  then have unswap: "swap_at i swapped = Some (sequence s)"
    by (rule swap_at_back)
  have restored: "update_position_map
      ((update_position_map (s\<lparr>sequence := swapped\<rparr>))\<lparr>sequence := sequence s\<rparr>) =
      update_position_map s"
    by simp
  have same: "get_crossing_count (s\<lparr>sequence := swapped\<rparr>) = get_crossing_count s"
    by (simp add: get_crossing_count_def)
  have "optimize_pass (i + 1) cc imp (update_position_map s) =
      Some (cc, imp,
        if i + 1 < size_t_sub (length (sequence (update_position_map s))) 1
        then update_position_map (update_position_map s) else update_position_map s)"
    using Suc.prems by (intro Suc.IH) simp_all
  then have next_step: "optimize_pass (Suc i) cc imp (update_position_map s) =
      Some (cc, imp, update_position_map s)"
    by simp
  show ?case
    using less Suc.prems(3)
    by (subst optimize_pass.simps) (simp add: sw unswap same restored next_step Let_def)
qed

lemma optimize_pass_reverts:
  "0 < length (sequence s) \<Longrightarrow>
   optimize_pass 0 (get_crossing_count s) False s =
     Some (get_crossing_count s, False,
       if 0 < size_t_sub (length (sequence s)) 1 then update_position_map s else s)"
  by (rule optimize_pass_reverts_aux [OF refl]) simp_all

lemma optimize_sequence_passes_eq:
  "optimize_sequence_passes s =
     (if (length (sequence s) * length (sequence s)) mod size_t_modulus = 0 then Some (s, 0)
      else Some (if 0 < size_t_sub (length (sequence s)) 1 then update_position_map s else s, 1))"
proof (cases "(length (sequence s) * length (sequence s)) mod size_t_modulus = 0")
  case True
  then show ?thesis
    by (simp add: optimize_sequence_passes_def optimize_loop.simps)
next
  case False
  then have pos: "0 < length (sequence s)"
    by (cases "length (sequence s)") simp_all
  have stop: "optimize_loop False (Suc 0) m s' = Some (s', Suc 0)"
    for m and s' :: "'a PlanarConstraints"
    by (subst optimize_loop.simps) simp
  from False show ?thesis
    unfolding optimize_sequence_passes_def
    by (subst optimize_loop.simps) (simp add: optimize_pass_reverts [OF pos] stop)
qed

lemma optimize_sequence_indexed: "indexed s \<Longrightarrow> optimize_sequence s = Some s"
  by (simp add: optimize_sequence_def optimize_sequence_passes_eq indexed_def)

lemma optimize_sequence_defined:
  "\<exists>s'. optimize_sequence s = Some s' \<and> sequence s' = sequence s \<and> links s' = links s"
  by (simp add: optimize_sequence_def optimize_sequence_passes_eq)

text \<open>
  C5. From every engine state \<^verbatim>\<open>optimize_sequence\<close> returns, without reading past
  the end of the sequence, after at most \<open>length\<^sup>2\<close> passes (none on the empty
  sequence, one on a single point), and the crossing count after the call is at most
  the count before it.
\<close>

theorem optimize_sequence_terminates:
  "\<exists>s' passes. optimize_sequence_passes s = Some (s', passes) \<and>
     passes \<le> length (sequence s) * length (sequence s) \<and>
     get_crossing_count s' \<le> get_crossing_count s"
proof (cases "(length (sequence s) * length (sequence s)) mod size_t_modulus = 0")
  case True
  then show ?thesis by (simp add: optimize_sequence_passes_eq)
next
  case False
  then have "Suc 0 \<le> length (sequence s)"
    by (cases "length (sequence s)") simp_all
  with False show ?thesis by (simp add: optimize_sequence_passes_eq)
qed

subsection \<open>States reached by the public operations\<close>

lemma is_planar_clear: "is_planar (clear s)"
  by (simp add: is_planar_def clear_def)

lemma is_planar_set_sequence: "is_planar (set_sequence s points)"
  by (simp add: is_planar_def set_sequence_def)

lemma is_planar_append_point: "is_planar s \<Longrightarrow> is_planar (append_point s point)"
  by (simp add: is_planar_def append_point_def Let_def)

lemma is_planar_remove_link: "is_planar s \<Longrightarrow> is_planar (remove_link s f t)"
  by (simp add: is_planar_def remove_link_def Let_def planar_links_filter)

lemma apply_operation_invariant:
  assumes "indexed s" "is_planar s"
  shows "\<exists>s'. apply_operation operation s = Some s' \<and> indexed s' \<and> is_planar s'"
proof (cases operation)
  case Clear
  then show ?thesis by (simp add: indexed_clear is_planar_clear)
next
  case (SetSequence points)
  then show ?thesis by (simp add: indexed_set_sequence is_planar_set_sequence)
next
  case (AppendPoint point)
  with assms show ?thesis by (simp add: indexed_append_point is_planar_append_point)
next
  case (AddLink f t)
  with assms show ?thesis by (simp add: indexed_add_link add_link_keeps_planar)
next
  case (RemoveLink f t)
  with assms show ?thesis by (simp add: indexed_remove_link is_planar_remove_link)
next
  case OptimizeSequence
  with assms show ?thesis by (simp add: optimize_sequence_indexed)
qed

lemma run_operations_invariant:
  "indexed s \<Longrightarrow> is_planar s \<Longrightarrow>
   \<exists>s'. run_operations ops s = Some s' \<and> indexed s' \<and> is_planar s'"
proof (induction ops arbitrary: s)
  case Nil
  then show ?case by simp
next
  case (Cons operation ops)
  from apply_operation_invariant [OF Cons.prems, of operation]
  obtain s1 where "apply_operation operation s = Some s1" "indexed s1" "is_planar s1"
    by blast
  with Cons.IH [of s1] show ?case by simp
qed

lemma example_engine_reachable:
  "run_operations [SetSequence [0, 1, 2, 3], AddLink 0 2] new_constraints = Some example_engine"
  by (simp add: new_constraints_def set_sequence_def update_position_map_def add_link_def
      is_planar_link_unfold example_engine_def eval_nat_numeral)

text \<open>
  C3. Every sequence of the operations \<^verbatim>\<open>clear\<close>, \<^verbatim>\<open>set_sequence\<close>,
  \<^verbatim>\<open>append_point\<close>, \<^verbatim>\<open>add_link\<close>, \<^verbatim>\<open>remove_link\<close> and \<^verbatim>\<open>optimize_sequence\<close>, run
  from a cleared engine, ends in a state in which \<^verbatim>\<open>is_planar\<close> is true and
  \<^verbatim>\<open>get_crossing_count\<close> is 0. The count is still 0 after any further \<^verbatim>\<open>add_link\<close>,
  so the test \<^verbatim>\<open>get_crossing_count() > 0\<close> that \<^verbatim>\<open>make_link\<close> makes after its
  \<^verbatim>\<open>add_link\<close> is false.
\<close>

theorem reachable_states_planar:
  "\<exists>s. run_operations ops (clear s0) = Some s \<and> is_planar s \<and> get_crossing_count s = 0 \<and>
       (\<forall>from_pnt to_pnt. \<not> 0 < get_crossing_count (snd (add_link s from_pnt to_pnt)))"
proof -
  from run_operations_invariant [OF indexed_clear is_planar_clear]
  obtain s where s: "run_operations ops (clear s0) = Some s" "is_planar s"
    by blast
  have "get_crossing_count (snd (add_link s f t)) = 0" for f t
    using s(2) by (intro get_crossing_count_planar add_link_keeps_planar)
  with s show ?thesis
    by (auto simp: get_crossing_count_planar)
qed

text \<open>
  C4. The members of the engine are private, so its states are those the public
  operations produce from a cleared engine. In every such state \<^verbatim>\<open>optimize_sequence\<close>
  returns the state it was called on, sequence, position index and links alike,
  after at most one pass.
\<close>

theorem optimize_sequence_identity:
  "\<exists>s. run_operations ops (clear s0) = Some s \<and> optimize_sequence s = Some s \<and>
       (\<exists>passes\<le>1. optimize_sequence_passes s = Some (s, passes))"
proof -
  from run_operations_invariant [OF indexed_clear is_planar_clear]
  obtain s where s: "run_operations ops (clear s0) = Some s" "indexed s"
    by blast
  then have "optimize_sequence_passes s = Some (s, 0) \<or> optimize_sequence_passes s = Some (s, 1)"
    by (simp add: optimize_sequence_passes_eq indexed_def)
  with s show ?thesis
    by (auto simp: optimize_sequence_indexed)
qed

subsection \<open>Creating a link under the policy\<close>

text \<open>
  In strict mode a connection that is not planar is refused: the undefined handle, and
  the policy exactly as it was.
\<close>

lemma make_link_strict_reject:
  "\<not> is_planar_link (constraints cb) from_pnt to_pnt \<Longrightarrow> strict_planarity cb \<Longrightarrow>
   make_link cb from_con to_con from_pnt to_pnt = Some (None, cb)"
  by (simp add: make_link_def is_connection_planar_def)

text \<open>
  With neither a base callback nor a working atomspace, a call that is not refused
  does not return.
\<close>

lemma make_link_null_work_as:
  "base_callback cb = None \<Longrightarrow> work_as cb = None \<Longrightarrow>
   is_planar_link (constraints cb) from_pnt to_pnt \<or> \<not> strict_planarity cb \<Longrightarrow>
   make_link cb from_con to_con from_pnt to_pnt = None"
  by (auto simp: make_link_def create_link_def is_connection_planar_def Let_def)

text \<open>
  A planar connection on a planar engine, in either mode: the collaborator's handle is
  returned, and the policy after the call differs from the one before it in the links
  alone, to which the one pair of the two points' positions has been appended.
\<close>

lemma make_link_planar:
  assumes planar: "is_planar_link (constraints cb) from_pnt to_pnt"
    and engine: "is_planar (constraints cb)"
    and handle: "create_link cb from_con to_con from_pnt to_pnt = Some link"
  shows "make_link cb from_con to_con from_pnt to_pnt =
     Some (link,
       cb\<lparr>constraints := (constraints cb)\<lparr>links := links (constraints cb) @
          [(the (position_map (constraints cb) from_pnt),
            the (position_map (constraints cb) to_pnt))]\<rparr>\<rparr>)"
proof -
  let ?c1 = "snd (add_link (constraints cb) from_pnt to_pnt)"
  have "get_crossing_count ?c1 = 0"
    using engine by (intro get_crossing_count_planar add_link_keeps_planar)
  moreover have "?c1 = (constraints cb)\<lparr>links := links (constraints cb) @
      [(the (position_map (constraints cb) from_pnt),
        the (position_map (constraints cb) to_pnt))]\<rparr>"
    using planar by (simp add: add_link_accept)
  moreover have "create_link (cb\<lparr>constraints := c\<rparr>) from_con to_con from_pnt to_pnt =
      create_link cb from_con to_con from_pnt to_pnt" for c
    by (simp add: create_link_def split: option.splits)
  ultimately show ?thesis
    using planar handle
    by (simp add: make_link_def is_connection_planar_def Let_def)
qed

text \<open>
  The lenient example policy is the state after constructing a policy without base
  callback, clearing it onto the atomspace, making it lenient, setting the sequence
  \<open>[0, 1, 2, 3]\<close> and creating the link between the points 0 and 2.
\<close>

lemma lenient_policy_reachable:
  "make_link
     (set_initial_sequence
        (set_strict_planarity (callback_clear (new_callback None) (Some evaluation_link)) False)
        [0, 1, 2, 3])
     20 21 0 2 = Some (Some (20, 21), lenient_policy)"
  by (simp add: make_link_def set_initial_sequence_def set_strict_planarity_def
      callback_clear_def new_callback_def new_constraints_def clear_def set_sequence_def
      update_position_map_def is_connection_planar_def is_planar_link_unfold add_link_def
      get_crossing_count_def create_link_def evaluation_link_def lenient_policy_def
      example_engine_def eval_nat_numeral)

text \<open>
  The planar link between the points 0 and 1 is registered in strict and in lenient
  mode, and the crossing link between 1 and 3 is refused in strict mode.
\<close>

lemma make_link_examples:
  "make_link strict_policy 10 11 0 1 =
     Some (Some (10, 11),
           strict_policy\<lparr>constraints := example_engine\<lparr>links := [(0, 2), (0, 1)]\<rparr>\<rparr>) \<and>
   make_link lenient_policy 10 11 0 1 =
     Some (Some (10, 11),
           lenient_policy\<lparr>constraints := example_engine\<lparr>links := [(0, 2), (0, 1)]\<rparr>\<rparr>) \<and>
   make_link strict_policy 10 11 1 3 = Some (None, strict_policy)"
  by (simp add: make_link_def strict_policy_def lenient_policy_def example_engine_def
      is_connection_planar_def is_planar_link_unfold add_link_def links_cross_def
      get_crossing_count_def create_link_def evaluation_link_def size_t_modulus_def)

text \<open>
  C7. A call of \<^verbatim>\<open>make_link\<close> that accepts the connection registers the link with
  the engine, so that the link count goes up by one; in lenient mode that includes a
  crossing connection. The code does not do so there. On the lenient example policy,
  whose engine holds the one link \<open>(0, 2)\<close>, the connection between the points 1 and 3
  is not planar; \<^verbatim>\<open>make_link\<close> goes on to \<^verbatim>\<open>_constraints.add_link\<close>, which makes
  the planarity check again and stores nothing, and returns the defined handle of the
  evaluation link: the policy after the call is the policy before it, with a link count
  of 1 where an accepted and registered link would make it 2.
\<close>

theorem make_link_lenient_crossing_not_registered:
  "\<not> strict_planarity lenient_policy \<and>
   \<not> is_planar_link (constraints lenient_policy) 1 3 \<and>
   get_link_count (constraints lenient_policy) = 1 \<and>
   make_link lenient_policy 10 11 1 3 = Some (Some (10, 11), lenient_policy)"
  by (simp add: make_link_def lenient_policy_def example_engine_def is_connection_planar_def
      is_planar_link_unfold add_link_def links_cross_def get_crossing_count_def
      get_link_count_def create_link_def evaluation_link_def size_t_modulus_def)

end
